theory Spec2Isabelle
  imports Complex_Main "HOL-Library.Word" "HOL-Library.While_Combinator"
begin

section \<open>Data model of \<open>valhalla/thor/costmatrix.h\<close>\<close>

text \<open>
  \<open>baldr::GraphId\<close> is a 64-bit identifier. \<open>sif::Cost\<close> is a pair of two \<open>float\<close>s, the
  cost and the elapsed seconds; the floats are read as real numbers (no rounding, no NaN).
  \<open>uint32_t\<close> fields are 32-bit words, the \<open>int\<close> threshold of a location is an integer,
  and the \<open>std::set<uint32_t>\<close> of location indices is a set of natural numbers.
\<close>

type_synonym GraphId = "64 word"

record Cost =
  cost :: real
  secs :: real

text \<open>\<open>struct LocationStatus\<close>: the iteration threshold and the locations still to be found.\<close>

record LocationStatus =
  threshold :: int
  remaining_locations :: "nat set"

definition LocationStatus_ctor :: "int \<Rightarrow> LocationStatus" where
  "LocationStatus_ctor t = \<lparr>threshold = t, remaining_locations = {}\<rparr>"

text \<open>
  \<open>struct BestCandidate\<close>. The fields \<open>cost\<close> and \<open>threshold\<close> of the source are named
  \<open>bc_cost\<close> and \<open>bc_threshold\<close> here, the plain names being taken by the records above.
\<close>

record BestCandidate =
  found :: bool
  edgeid :: GraphId
  opp_edgeid :: GraphId
  bc_cost :: Cost
  distance :: "32 word"
  bc_threshold :: "32 word"

text \<open>The constructor: \<open>found(false), edgeid(e1), opp_edgeid(e2), cost(c), distance(d), threshold(0)\<close>.\<close>

definition BestCandidate_ctor :: "GraphId \<Rightarrow> GraphId \<Rightarrow> Cost \<Rightarrow> 32 word \<Rightarrow> BestCandidate" where
  "BestCandidate_ctor e1 e2 c d =
     \<lparr>found = False, edgeid = e1, opp_edgeid = e2, bc_cost = c, distance = d, bc_threshold = 0\<rparr>"

text \<open>\<open>BestCandidate::Update\<close>: four assignments, in the order of the source.\<close>

definition Update :: "BestCandidate \<Rightarrow> GraphId \<Rightarrow> GraphId \<Rightarrow> Cost \<Rightarrow> 32 word \<Rightarrow> BestCandidate" where
  "Update b e1 e2 c d = b\<lparr>edgeid := e1, opp_edgeid := e2, bc_cost := c, distance := d\<rparr>"

text \<open>The three divisors of the cost threshold (\<open>constexpr float\<close>).\<close>

definition kCostThresholdAutoDivisor :: real where
  "kCostThresholdAutoDivisor = 56"

definition kCostThresholdBicycleDivisor :: real where
  "kCostThresholdBicycleDivisor = 56"

definition kCostThresholdPedestrianDivisor :: real where
  "kCostThresholdPedestrianDivisor = 28"

subsection \<open>\<open>CostMatrix::SetOriginTimes\<close>\<close>

text \<open>
  \<open>baldr::TimeInfo::make(origin, reader, &tz_cache_)\<close> is declared outside this header. It
  receives the origin by mutable reference, the graph reader and the time zone cache, so it is a
  parameter \<open>mk\<close> that maps an origin and the state it can reach (reader and cache, of any type
  \<open>'st\<close>) to the time info, the origin as it leaves it and the new state.

  The range-based \<open>for\<close> loop over \<open>origins\<close> is the recursion \<open>SetOriginTimes_loop\<close>;
  \<open>infos\<close> is the vector built so far, \<open>emplace_back\<close> appends to it.
\<close>

fun SetOriginTimes_loop ::
  "('loc \<Rightarrow> 'st \<Rightarrow> 'ti \<times> 'loc \<times> 'st) \<Rightarrow> 'loc list \<Rightarrow> 'ti list \<Rightarrow> 'st
     \<Rightarrow> 'ti list \<times> 'loc list \<times> 'st" where
  "SetOriginTimes_loop mk [] infos st = (infos, [], st)"
| "SetOriginTimes_loop mk (origin # rest) infos st =
     (case mk origin st of (ti, origin', st') \<Rightarrow>
        (case SetOriginTimes_loop mk rest (infos @ [ti]) st' of
           (infos', rest', st'') \<Rightarrow> (infos', origin' # rest', st'')))"

definition SetOriginTimes ::
  "('loc \<Rightarrow> 'st \<Rightarrow> 'ti \<times> 'loc \<times> 'st) \<Rightarrow> 'loc list \<Rightarrow> 'st \<Rightarrow> 'ti list \<times> 'loc list \<times> 'st" where
  "SetOriginTimes mk origins st = SetOriginTimes_loop mk origins [] st"

text \<open>The reader and cache state in which the call for the origin after \<open>origins\<close> is made.\<close>

fun state_after :: "('loc \<Rightarrow> 'st \<Rightarrow> 'ti \<times> 'loc \<times> 'st) \<Rightarrow> 'loc list \<Rightarrow> 'st \<Rightarrow> 'st" where
  "state_after mk [] st = st"
| "state_after mk (origin # rest) st = state_after mk rest (snd (snd (mk origin st)))"

section \<open>The expansion engine\<close>

text \<open>
  The header declares \<open>GetCostThreshold\<close>, \<open>Initialize\<close>, \<open>ForwardSearch\<close>,
  \<open>CheckForwardConnections\<close>, \<open>UpdateStatus\<close>, \<open>BackwardSearch\<close>, \<open>SetSources\<close>,
  \<open>SetTargets\<close>, \<open>RecostPaths\<close>, \<open>SourceToTarget\<close> and \<open>clear\<close>; their bodies are in
  \<open>costmatrix.cc\<close>, which is not among the sources, and the types \<open>sif::BDEdgeLabel\<close>,
  \<open>EdgeStatus\<close>, \<open>baldr::DoubleBucketQueue\<close> and \<open>TargetMap\<close> are declared in other
  headers. Every definition of this section is therefore written from the specification
  (sections 3 and 4 of \<open>spec.md\<close>) and says so. Members keep the names of the header without
  the trailing underscore. Indices and counts are natural numbers (the header's \<open>uint32_t\<close>,
  without wrap-around).
\<close>

subsection \<open>Collaborators\<close>

text \<open>
  Modelled from the spec: \<open>sif::TravelMode\<close> (declared in \<open>sif/dynamiccost.h\<close>), with the three
  modes section 4.5 names.
\<close>

datatype TravelMode = Auto | Bicycle | Pedestrian

text \<open>
  Modelled from the spec: \<open>sif::BDEdgeLabel\<close> (section 3, EdgeLabel): predecessor label index
  (\<open>None\<close> at an origin seed), edge, opposing edge, accumulated cost and accumulated distance.
  The hierarchy level, the not-thru and deadend flags and the transition cost snapshot feed
  only the costing's decisions, which are parameters below.
\<close>

record EdgeLabel =
  predecessor :: "nat option"
  el_edgeid :: GraphId
  el_opp_edgeid :: GraphId
  el_cost :: Cost
  path_distance :: "32 word"

text \<open>Modelled from the spec: the three values of an edge's status (section 3, EdgeStatus).\<close>

datatype EdgeSet = Unreached | Temporary | Permanent

text \<open>
  Modelled from the spec: the two directions of search, forward from a source and reverse
  from a target (sections 4.2 and 4.3).
\<close>

datatype Direction = Forward | Reverse

text \<open>
  Modelled from the spec: a candidate edge of a location, with its \<open>percent_along\<close>
  (section 4.8); a location is its list of candidate edges.
\<close>

record PathEdge =
  graph_id :: GraphId
  percent_along :: real

text \<open>Modelled from the spec: a location, as the list of its candidate edges (section 6).\<close>

type_synonym Location = "PathEdge list"

text \<open>
  Modelled from the spec: the interfaces the engine consumes and its tunables (section 6).
  \<open>outgoing e\<close> lists the directed edges that leave the end node of \<open>e\<close>; the costing
  functions take the index of the location that searches, which fixes the time info, the
  edge as the search traverses it, and the predecessor label or the seconds elapsed;
  \<open>disallowed\<close> is true when access, the transition or the hierarchy limits forbid the edge.
  \<open>partial_length\<close> is the distance a seed starts with: the specification scales the cost
  of a partial edge and is silent on its distance. \<open>recost\<close> evaluates a meeting path with
  true timestamps (section 4.7). The initial values of a best connection are not given by the
  specification and are tunables here.
\<close>

record Env =
  outgoing :: "GraphId \<Rightarrow> GraphId list"
  opposing_edge_id :: "GraphId \<Rightarrow> GraphId"
  edge_length :: "GraphId \<Rightarrow> 32 word"
  partial_length :: "Direction \<Rightarrow> PathEdge \<Rightarrow> 32 word"
  disallowed :: "Direction \<Rightarrow> nat \<Rightarrow> GraphId \<Rightarrow> EdgeLabel \<Rightarrow> bool"
  edge_cost :: "nat \<Rightarrow> GraphId \<Rightarrow> real \<Rightarrow> Cost"
  transition_cost :: "nat \<Rightarrow> GraphId \<Rightarrow> EdgeLabel \<Rightarrow> Cost"
  edge_cost_reverse :: "nat \<Rightarrow> GraphId \<Rightarrow> real \<Rightarrow> Cost"
  transition_cost_reverse :: "nat \<Rightarrow> GraphId \<Rightarrow> EdgeLabel \<Rightarrow> Cost"
  recost :: "nat \<Rightarrow> GraphId list \<Rightarrow> GraphId list \<Rightarrow> Cost"
  initial_threshold :: int
  pair_meeting_threshold :: "32 word"
  invalid_edge :: GraphId
  unreached_cost :: Cost
  unreached_distance :: "32 word"

text \<open>
  Modelled from the spec: costs compose by addition (section 3), in both components of
  \<open>sif::Cost\<close>.
\<close>

definition cost_add :: "Cost \<Rightarrow> Cost \<Rightarrow> Cost" where
  "cost_add a b = \<lparr>cost = cost a + cost b, secs = secs a + secs b\<rparr>"

text \<open>
  Modelled from the spec: the cost of a partial edge is the cost of the edge scaled by a
  factor (section 4.8).
\<close>

definition cost_scale :: "real \<Rightarrow> Cost \<Rightarrow> Cost" where
  "cost_scale f a = \<lparr>cost = f * cost a, secs = f * secs a\<rparr>"

subsection \<open>The cost threshold\<close>

text \<open>
  Modelled from the spec: the body of \<open>CostMatrix::GetCostThreshold\<close> (section 4.5): the
  distance divided by the divisor of the mode. The divisors are the header's constants.
\<close>

definition GetCostThreshold :: "TravelMode \<Rightarrow> real \<Rightarrow> real" where
  "GetCostThreshold m max_matrix_distance =
     (case m of
        Auto \<Rightarrow> max_matrix_distance / kCostThresholdAutoDivisor
      | Bicycle \<Rightarrow> max_matrix_distance / kCostThresholdBicycleDivisor
      | Pedestrian \<Rightarrow> max_matrix_distance / kCostThresholdPedestrianDivisor)"

subsection \<open>One search per location\<close>

text \<open>
  Modelled from the spec: the state one location owns (section 2, per-location search state):
  the queue \<open>adjacency\<close> of label indices, the label buffer \<open>edgelabel\<close> and the edge status
  with the label index of each reached edge. \<open>source_adjacency_[i]\<close>, \<open>source_edgelabel_[i]\<close>
  and \<open>source_edgestatus_[i]\<close> of the header are the fields of \<open>source_search ! i\<close> below.
  \<open>settled\<close> is the history of the edges marked \<open>Permanent\<close>, oldest first; the engine never
  reads it.
\<close>

record Search =
  adjacency :: "nat list"
  edgelabel :: "EdgeLabel list"
  edgestatus :: "GraphId \<Rightarrow> EdgeSet \<times> nat"
  settled :: "GraphId list"

text \<open>
  Modelled from the spec: the search of a location as \<open>Initialize\<close> allocates it: empty queue,
  no label, every edge \<open>Unreached\<close>.
\<close>

definition empty_search :: Search where
  "empty_search = \<lparr>adjacency = [], edgelabel = [], edgestatus = (\<lambda>e. (Unreached, 0)), settled = []\<rparr>"

text \<open>
  Modelled from the spec: the order of the queue (section 4.2, tie-breaks): lower cost, then
  shorter distance, then lower edge identifier.
\<close>

definition label_before :: "EdgeLabel \<Rightarrow> EdgeLabel \<Rightarrow> bool" where
  "label_before a b \<longleftrightarrow>
     cost (el_cost a) < cost (el_cost b) \<or>
     (cost (el_cost a) = cost (el_cost b) \<and>
        (path_distance a < path_distance b \<or>
         (path_distance a = path_distance b \<and> el_edgeid a < el_edgeid b)))"

text \<open>
  Modelled from the spec: the index of the first label in queue order among \<open>m\<close> and the
  indices \<open>is\<close> (the scan behind pop-min).
\<close>

fun cheapest :: "EdgeLabel list \<Rightarrow> nat \<Rightarrow> nat list \<Rightarrow> nat" where
  "cheapest ls m [] = m"
| "cheapest ls m (i # is) = cheapest ls (if label_before (ls ! i) (ls ! m) then i else m) is"

text \<open>
  Modelled from the spec: pop-min of the queue (section 3, DoubleBucketQueue). It returns the
  index of the cheapest label and the search without it, or \<open>None\<close> when the queue is empty.
  Decrease-key rewrites the label in the buffer, so the queue holds indices only.
\<close>

definition pop :: "Search \<Rightarrow> (nat \<times> Search) option" where
  "pop S =
     (case adjacency S of
        [] \<Rightarrow> None
      | i # is \<Rightarrow>
          (let m = cheapest (edgelabel S) i is
           in Some (m, S\<lparr>adjacency := remove1 m (adjacency S)\<rparr>)))"

text \<open>Modelled from the spec: push of a new label, whose edge becomes \<open>Temporary\<close>.\<close>

definition push_label :: "EdgeLabel \<Rightarrow> Search \<Rightarrow> Search" where
  "push_label l S =
     S\<lparr>adjacency := adjacency S @ [length (edgelabel S)],
       edgelabel := edgelabel S @ [l],
       edgestatus := (edgestatus S)(el_edgeid l := (Temporary, length (edgelabel S)))\<rparr>"

text \<open>Modelled from the spec: settling the popped label marks its edge \<open>Permanent\<close> (section 4.2).\<close>

definition settle :: "nat \<Rightarrow> Search \<Rightarrow> Search" where
  "settle i S =
     S\<lparr>edgestatus := (edgestatus S)(el_edgeid (edgelabel S ! i) := (Permanent, i)),
       settled := settled S @ [el_edgeid (edgelabel S ! i)]\<rparr>"

text \<open>
  Modelled from the spec: the label of edge \<open>e\<close> reached from \<open>pred\<close> (section 4.2, step 2):
  the accumulated cost is the predecessor's cost plus edge cost plus transition cost; the
  reverse search uses the reverse costing (section 4.3).
\<close>

definition next_label :: "Env \<Rightarrow> Direction \<Rightarrow> nat \<Rightarrow> nat \<Rightarrow> EdgeLabel \<Rightarrow> GraphId \<Rightarrow> EdgeLabel" where
  "next_label G dir loc predindex pred e =
     \<lparr>predecessor = Some predindex,
      el_edgeid = e,
      el_opp_edgeid = opposing_edge_id G e,
      el_cost =
        cost_add (el_cost pred)
          (case dir of
             Forward \<Rightarrow>
               cost_add (edge_cost G loc e (secs (el_cost pred))) (transition_cost G loc e pred)
           | Reverse \<Rightarrow>
               cost_add (edge_cost_reverse G loc e (secs (el_cost pred)))
                 (transition_cost_reverse G loc e pred)),
      path_distance = path_distance pred + edge_length G e\<rparr>"

text \<open>
  Modelled from the spec: relaxation of one outgoing edge (section 4.2, step 2): skipped when
  disallowed or already \<open>Permanent\<close>; decrease-key when \<open>Temporary\<close> and cheaper; otherwise a
  new label is pushed.
\<close>

definition relax :: "Env \<Rightarrow> Direction \<Rightarrow> nat \<Rightarrow> nat \<Rightarrow> EdgeLabel \<Rightarrow> Search \<Rightarrow> GraphId \<Rightarrow> Search" where
  "relax G dir loc predindex pred S e =
     (if disallowed G dir loc e pred \<or> fst (edgestatus S e) = Permanent then S
      else if fst (edgestatus S e) = Temporary then
        (if cost (el_cost (next_label G dir loc predindex pred e))
              < cost (el_cost (edgelabel S ! snd (edgestatus S e)))
         then S\<lparr>edgelabel :=
                  (edgelabel S)[snd (edgestatus S e) := next_label G dir loc predindex pred e]\<rparr>
         else S)
      else push_label (next_label G dir loc predindex pred e) S)"

text \<open>
  Modelled from the spec: expansion (section 4.2, step 2): every outgoing directed edge of the
  end node of \<open>pred\<close> is relaxed in turn.
\<close>

definition expand :: "Env \<Rightarrow> Direction \<Rightarrow> nat \<Rightarrow> nat \<Rightarrow> EdgeLabel \<Rightarrow> Search \<Rightarrow> Search" where
  "expand G dir loc predindex pred S =
     foldl (relax G dir loc predindex pred) S (outgoing G (el_edgeid pred))"

text \<open>
  Modelled from the spec: seeding (section 4.8): one initial label per candidate edge, its cost
  scaled by \<open>1 - percent_along\<close> forward and by \<open>percent_along\<close> in reverse, where the
  candidate is taken in the opposing orientation (section 4.3).
\<close>

definition seed_label :: "Env \<Rightarrow> Direction \<Rightarrow> nat \<Rightarrow> PathEdge \<Rightarrow> EdgeLabel" where
  "seed_label G dir loc c =
     (case dir of
        Forward \<Rightarrow>
          \<lparr>predecessor = None, el_edgeid = graph_id c,
           el_opp_edgeid = opposing_edge_id G (graph_id c),
           el_cost = cost_scale (1 - percent_along c) (edge_cost G loc (graph_id c) 0),
           path_distance = partial_length G Forward c\<rparr>
      | Reverse \<Rightarrow>
          \<lparr>predecessor = None, el_edgeid = opposing_edge_id G (graph_id c),
           el_opp_edgeid = graph_id c,
           el_cost =
             cost_scale (percent_along c)
               (edge_cost_reverse G loc (opposing_edge_id G (graph_id c)) 0),
           path_distance = partial_length G Reverse c\<rparr>)"

text \<open>
  Modelled from the spec: the seeds of one location are pushed in the order of its candidate
  edges (section 4.8).
\<close>

definition seed :: "Env \<Rightarrow> Direction \<Rightarrow> nat \<Rightarrow> Location \<Rightarrow> Search \<Rightarrow> Search" where
  "seed G dir loc cands S = foldl (\<lambda>S' c. push_label (seed_label G dir loc c) S') S cands"

subsection \<open>The engine's state\<close>

text \<open>
  Modelled from the spec: the members of \<open>class CostMatrix\<close> the engine works on. The target
  map \<open>targets\<close> (section 4.6) maps an edge to the pairs of target index and label index of
  the reverse searches that settled it. \<open>best_connection\<close> holds the pair of source \<open>s\<close> and
  target \<open>t\<close> at index \<open>s * target_count + t\<close>.
\<close>

record CostMatrix =
  mode :: TravelMode
  source_count :: nat
  remaining_sources :: nat
  target_count :: nat
  remaining_targets :: nat
  current_cost_threshold :: real
  source_status :: "LocationStatus list"
  target_status :: "LocationStatus list"
  source_search :: "Search list"
  target_search :: "Search list"
  best_connection :: "BestCandidate list"
  targets :: "GraphId \<Rightarrow> (nat \<times> nat) list"

subsection \<open>Connections\<close>

text \<open>
  Modelled from the spec: a location index leaves the remaining set of a status (section 4.2,
  step 1).
\<close>

definition remove_location :: "nat \<Rightarrow> LocationStatus \<Rightarrow> LocationStatus" where
  "remove_location x ls = ls\<lparr>remaining_locations := remaining_locations ls - {x}\<rparr>"

text \<open>
  Modelled from the spec: \<open>CostMatrix::UpdateStatus\<close> (section 4.2, step 1): the target leaves
  the remaining set of the source, the source that of the target, and the threshold of the
  pair is armed.
\<close>

definition UpdateStatus :: "Env \<Rightarrow> nat \<Rightarrow> nat \<Rightarrow> CostMatrix \<Rightarrow> CostMatrix" where
  "UpdateStatus G source target eng =
     eng\<lparr>source_status :=
           (source_status eng)[source := remove_location target (source_status eng ! source)],
         target_status :=
           (target_status eng)[target := remove_location source (target_status eng ! target)],
         best_connection :=
           (best_connection eng)
             [source * target_count eng + target :=
                (best_connection eng ! (source * target_count eng + target))
                  \<lparr>bc_threshold := pair_meeting_threshold G\<rparr>]\<rparr>"

text \<open>
  Modelled from the spec: the body of the loop of \<open>CheckForwardConnections\<close> for one entry of
  the target map (sections 4.2, step 1, and 4.4): the combined cost and distance of the
  forward label and the reverse label; a committed pair is left alone; a meeting with strictly
  lower cost replaces the best connection through \<open>Update\<close>; the first meeting of the pair,
  whose target is still in the remaining set of the source, also updates the status.
\<close>

definition connect :: "Env \<Rightarrow> nat \<Rightarrow> EdgeLabel \<Rightarrow> CostMatrix \<Rightarrow> nat \<times> nat \<Rightarrow> CostMatrix" where
  "connect G source pred eng entry =
     (let target = fst entry;
          idx = source * target_count eng + target;
          b = best_connection eng ! idx;
          opp = edgelabel (target_search eng ! target) ! snd entry;
          c = cost_add (el_cost pred) (el_cost opp);
          d = path_distance pred + path_distance opp
      in if found b \<or> \<not> cost c < cost (bc_cost b) then eng
         else if target \<in> remaining_locations (source_status eng ! source) then
           UpdateStatus G source target
             (eng\<lparr>best_connection :=
                    (best_connection eng)
                      [idx := Update b (el_edgeid pred) (el_opp_edgeid pred) c d]\<rparr>)
         else
           eng\<lparr>best_connection :=
                 (best_connection eng)
                   [idx := Update b (el_edgeid pred) (el_opp_edgeid pred) c d]\<rparr>)"

text \<open>
  Modelled from the spec: \<open>CostMatrix::CheckForwardConnections\<close> (section 4.2, step 1): the
  opposing edge of the settled label is looked up in the target map, and every target listed
  there is tried. The iteration counter \<open>n\<close> is a parameter of the header's signature.
\<close>

definition CheckForwardConnections :: "Env \<Rightarrow> nat \<Rightarrow> EdgeLabel \<Rightarrow> nat \<Rightarrow> CostMatrix \<Rightarrow> CostMatrix" where
  "CheckForwardConnections G source pred n eng =
     foldl (connect G source pred) eng (targets eng (el_opp_edgeid pred))"

text \<open>
  Modelled from the spec: the threshold of a pair (section 4.4): after the first meeting it is
  decremented at each later forward iteration of the source, and the pair is committed
  (\<open>found\<close>) when it reaches 0.
\<close>

definition tick :: "BestCandidate \<Rightarrow> BestCandidate" where
  "tick b =
     (if found b \<or> bc_threshold b = 0 then b
      else if bc_threshold b - 1 = 0 then b\<lparr>found := True, bc_threshold := 0\<rparr>
      else b\<lparr>bc_threshold := bc_threshold b - 1\<rparr>)"

text \<open>
  Modelled from the spec: at a forward iteration of a source the threshold of each of its
  pairs is decremented (section 4.4).
\<close>

definition tick_pairs :: "nat \<Rightarrow> CostMatrix \<Rightarrow> CostMatrix" where
  "tick_pairs source eng =
     eng\<lparr>best_connection :=
           foldl (\<lambda>bs target.
                    bs[source * target_count eng + target :=
                         tick (bs ! (source * target_count eng + target))])
             (best_connection eng) [0..<target_count eng]\<rparr>"

text \<open>
  Modelled from the spec: a source that terminates commits the pairs it has met (section 4.4);
  a met pair is one whose target has left the remaining set of the source.
\<close>

definition finalize_source :: "nat \<Rightarrow> CostMatrix \<Rightarrow> CostMatrix" where
  "finalize_source source eng =
     eng\<lparr>best_connection :=
           foldl (\<lambda>bs target.
                    if target \<in> remaining_locations (source_status eng ! source) then bs
                    else bs[source * target_count eng + target :=
                              (bs ! (source * target_count eng + target))\<lparr>found := True\<rparr>])
             (best_connection eng) [0..<target_count eng]\<rparr>"

text \<open>
  Modelled from the spec: a pop that finds no candidate decrements the count of remaining
  sources (targets) and marks the location terminated (section 4.1): its threshold becomes 0,
  at which expansion stops for the location (the header, on \<open>LocationStatus\<close>).
\<close>

definition terminate_source :: "nat \<Rightarrow> CostMatrix \<Rightarrow> CostMatrix" where
  "terminate_source index eng =
     finalize_source index
       (eng\<lparr>remaining_sources := remaining_sources eng - 1,
            source_status :=
              (source_status eng)[index := (source_status eng ! index)\<lparr>threshold := 0\<rparr>]\<rparr>)"

text \<open>
  Modelled from the spec: the same for a target (section 4.1, step 2, symmetrically).
\<close>

definition terminate_target :: "nat \<Rightarrow> CostMatrix \<Rightarrow> CostMatrix" where
  "terminate_target index eng =
     eng\<lparr>remaining_targets := remaining_targets eng - 1,
         target_status :=
           (target_status eng)[index := (target_status eng ! index)\<lparr>threshold := 0\<rparr>]\<rparr>"

text \<open>
  Modelled from the spec: threshold decay (section 4.2, step 3): when the iteration brought no
  update of a best connection and no location remains to be found, the threshold of the
  location is decremented; a source whose threshold reaches 0 commits its pairs.
\<close>

definition decay :: "LocationStatus \<Rightarrow> LocationStatus" where
  "decay ls =
     (if remaining_locations ls = {} \<and> 0 < threshold ls then ls\<lparr>threshold := threshold ls - 1\<rparr>
      else ls)"

text \<open>
  Modelled from the spec: the decay of a source's threshold at the end of a forward step
  (section 4.2, step 3); \<open>updated\<close> says that the step updated a best connection. A source
  whose threshold reaches 0 commits its pairs (section 4.4).
\<close>

definition decay_source :: "nat \<Rightarrow> bool \<Rightarrow> CostMatrix \<Rightarrow> CostMatrix" where
  "decay_source index updated eng =
     (if updated then eng
      else
        (let eng' = eng\<lparr>source_status := (source_status eng)[index := decay (source_status eng ! index)]\<rparr>
         in if threshold (source_status eng' ! index) = 0 then finalize_source index eng' else eng'))"

text \<open>
  Modelled from the spec: the decay of a target's threshold at the end of a backward step
  (section 4.3, as the forward step; a backward step updates no connection).
\<close>

definition decay_target :: "nat \<Rightarrow> CostMatrix \<Rightarrow> CostMatrix" where
  "decay_target index eng =
     eng\<lparr>target_status := (target_status eng)[index := decay (target_status eng ! index)]\<rparr>"

subsection \<open>Forward and backward steps\<close>

text \<open>
  Modelled from the spec: \<open>CostMatrix::ForwardSearch\<close> (sections 4.2, 4.4 and 4.5), one step of
  the forward search of source \<open>index\<close>: the thresholds of its met pairs are decremented; the
  cheapest label is popped; an empty queue terminates the source; a label dearer than the cost
  threshold is discarded and, as the header says of the cost thresholds, the search is
  terminated; otherwise its edge is settled, connections are checked, the outgoing edges are
  relaxed and the threshold decays.
\<close>

definition ForwardSearch :: "Env \<Rightarrow> nat \<Rightarrow> nat \<Rightarrow> CostMatrix \<Rightarrow> CostMatrix" where
  "ForwardSearch G index n eng0 =
     (let eng = tick_pairs index eng0
      in case pop (source_search eng ! index) of
           None \<Rightarrow> terminate_source index eng
         | Some (predindex, S1) \<Rightarrow>
             (let pred = edgelabel S1 ! predindex
              in if current_cost_threshold eng < cost (el_cost pred)
                 then terminate_source index
                        (eng\<lparr>source_search := (source_search eng)[index := S1]\<rparr>)
                 else
                   (let S2 = settle predindex S1;
                        eng1 = CheckForwardConnections G index pred n
                                 (eng\<lparr>source_search := (source_search eng)[index := S2]\<rparr>);
                        S3 = expand G Forward index predindex pred S2;
                        eng2 = eng1\<lparr>source_search := (source_search eng1)[index := S3]\<rparr>
                    in decay_source index (best_connection eng1 \<noteq> best_connection eng) eng2)))"

text \<open>
  Modelled from the spec: \<open>CostMatrix::BackwardSearch\<close> (section 4.3), one step of the reverse
  search of target \<open>index\<close>: as the forward step, with the reverse costing; a settled edge is
  entered in the target map with the target and the label index; connections are not checked.
\<close>

definition BackwardSearch :: "Env \<Rightarrow> nat \<Rightarrow> CostMatrix \<Rightarrow> CostMatrix" where
  "BackwardSearch G index eng =
     (case pop (target_search eng ! index) of
        None \<Rightarrow> terminate_target index eng
      | Some (predindex, S1) \<Rightarrow>
          (let pred = edgelabel S1 ! predindex
           in if current_cost_threshold eng < cost (el_cost pred)
              then terminate_target index
                     (eng\<lparr>target_search := (target_search eng)[index := S1]\<rparr>)
              else
                (let S2 = settle predindex S1;
                     S3 = expand G Reverse index predindex pred S2
                 in decay_target index
                      (eng\<lparr>target_search := (target_search eng)[index := S3],
                           targets :=
                             (targets eng)
                               (el_edgeid pred :=
                                  targets eng (el_edgeid pred) @ [(index, predindex)])\<rparr>))))"

subsection \<open>The expansion driver\<close>

text \<open>
  Modelled from the spec: one outer iteration \<open>n\<close> of the driver (section 4.1): every source
  whose threshold is positive makes one forward step, then every target whose threshold is
  positive makes one backward step.
\<close>

definition forward_round :: "Env \<Rightarrow> nat \<Rightarrow> CostMatrix \<Rightarrow> CostMatrix" where
  "forward_round G n eng =
     foldl (\<lambda>e s. if 0 < threshold (source_status e ! s) then ForwardSearch G s n e else e)
       eng [0..<source_count eng]"

text \<open>
  Modelled from the spec: the second half of an outer iteration (section 4.1, step 2): every
  target whose threshold is positive makes one backward step.
\<close>

definition backward_round :: "Env \<Rightarrow> CostMatrix \<Rightarrow> CostMatrix" where
  "backward_round G eng =
     foldl (\<lambda>e t. if 0 < threshold (target_status e ! t) then BackwardSearch G t e else e)
       eng [0..<target_count eng]"

text \<open>
  Modelled from the spec: one outer iteration of the driver (section 4.1): the forward steps,
  then the backward steps; the iteration counter is incremented.
\<close>

definition ExpansionRound :: "Env \<Rightarrow> nat \<times> CostMatrix \<Rightarrow> nat \<times> CostMatrix" where
  "ExpansionRound G st = (Suc (fst st), backward_round G (forward_round G (fst st) (snd st)))"

text \<open>
  Modelled from the spec: the driver stops when no source and no target remains, or when every
  threshold has decayed to zero (section 4.1).
\<close>

definition finished :: "CostMatrix \<Rightarrow> bool" where
  "finished eng \<longleftrightarrow>
     (remaining_sources eng = 0 \<and> remaining_targets eng = 0) \<or>
     (list_all (\<lambda>ls. threshold ls = 0) (source_status eng) \<and>
      list_all (\<lambda>ls. threshold ls = 0) (target_status eng))"

subsection \<open>A query\<close>

text \<open>
  Modelled from the spec: \<open>CostMatrix::clear\<close> (section 3, lifecycles): the state of the
  locations, the best connections and the target map are released.
\<close>

definition clear :: "CostMatrix \<Rightarrow> CostMatrix" where
  "clear eng =
     eng\<lparr>source_status := [], target_status := [], source_search := [], target_search := [],
         best_connection := [], targets := (\<lambda>e. [])\<rparr>"

text \<open>
  Modelled from the spec: \<open>CostMatrix::Initialize\<close> (sections 3 and 4.1): the counts are set
  and, for every location, a status with every opposing index remaining and an empty search
  are allocated, and a best connection for every pair.
\<close>

definition Initialize :: "Env \<Rightarrow> Location list \<Rightarrow> Location list \<Rightarrow> CostMatrix \<Rightarrow> CostMatrix" where
  "Initialize G source_location_list target_location_list eng =
     eng\<lparr>source_count := length source_location_list,
         remaining_sources := length source_location_list,
         target_count := length target_location_list,
         remaining_targets := length target_location_list,
         source_status :=
           source_status eng @
           replicate (length source_location_list)
             ((LocationStatus_ctor (initial_threshold G))
                \<lparr>remaining_locations := {0..<length target_location_list}\<rparr>),
         target_status :=
           target_status eng @
           replicate (length target_location_list)
             ((LocationStatus_ctor (initial_threshold G))
                \<lparr>remaining_locations := {0..<length source_location_list}\<rparr>),
         source_search := source_search eng @ replicate (length source_location_list) empty_search,
         target_search := target_search eng @ replicate (length target_location_list) empty_search,
         best_connection :=
           best_connection eng @
           replicate (length source_location_list * length target_location_list)
             (BestCandidate_ctor (invalid_edge G) (invalid_edge G) (unreached_cost G)
                (unreached_distance G))\<rparr>"

text \<open>
  Modelled from the spec: \<open>SetSources\<close> seeds the forward search of every source
  (section 4.8).
\<close>

definition SetSources :: "Env \<Rightarrow> Location list \<Rightarrow> CostMatrix \<Rightarrow> CostMatrix" where
  "SetSources G sources eng =
     foldl (\<lambda>e i. e\<lparr>source_search :=
                      (source_search e)[i := seed G Forward i (sources ! i) (source_search e ! i)]\<rparr>)
       eng [0..<length sources]"

text \<open>
  Modelled from the spec: \<open>SetTargets\<close> seeds the reverse search of every target
  (sections 4.3 and 4.8).
\<close>

definition SetTargets :: "Env \<Rightarrow> Location list \<Rightarrow> CostMatrix \<Rightarrow> CostMatrix" where
  "SetTargets G targets' eng =
     foldl (\<lambda>e i. e\<lparr>target_search :=
                      (target_search e)[i := seed G Reverse i (targets' ! i) (target_search e ! i)]\<rparr>)
       eng [0..<length targets']"

text \<open>
  Modelled from the spec: \<open>RecostPaths\<close> (section 4.7): for every found pair the chain of
  predecessors from the meeting edge back to the source and the chain from the opposing edge
  back to the target are rebuilt, and the recosted path replaces the cost of the connection.
  A chain is at most as long as the label buffer.
\<close>

fun chain :: "nat \<Rightarrow> EdgeLabel list \<Rightarrow> nat \<Rightarrow> GraphId list" where
  "chain 0 ls i = []"
| "chain (Suc k) ls i =
     (if i < length ls
      then el_edgeid (ls ! i) #
             (case predecessor (ls ! i) of None \<Rightarrow> [] | Some j \<Rightarrow> chain k ls j)
      else [])"

text \<open>
  Modelled from the spec: the chain of predecessors from the label of edge \<open>e\<close> back to a seed
  (section 4.7).
\<close>

definition path_back :: "Search \<Rightarrow> GraphId \<Rightarrow> GraphId list" where
  "path_back S e = chain (length (edgelabel S)) (edgelabel S) (snd (edgestatus S e))"

text \<open>
  Modelled from the spec: the recosted connection of the pair at index \<open>idx\<close> (section 4.7): a
  found pair gets the cost of its rebuilt path, evaluated with true timestamps.
\<close>

definition recost_pair :: "Env \<Rightarrow> CostMatrix \<Rightarrow> nat \<Rightarrow> BestCandidate" where
  "recost_pair G eng idx =
     (let b = best_connection eng ! idx;
          s = idx div target_count eng;
          t = idx mod target_count eng
      in if found b
         then b\<lparr>bc_cost :=
                  recost G s (path_back (source_search eng ! s) (edgeid b))
                    (path_back (target_search eng ! t) (opp_edgeid b))\<rparr>
         else b)"

text \<open>
  Modelled from the spec: \<open>RecostPaths\<close> recosts every pair (section 4.7).
\<close>

definition RecostPaths :: "Env \<Rightarrow> CostMatrix \<Rightarrow> CostMatrix" where
  "RecostPaths G eng =
     eng\<lparr>best_connection := map (recost_pair G eng) [0..<length (best_connection eng)]\<rparr>"

text \<open>
  Modelled from the spec: a cell of the result matrix (sections 4.9 and 6): the found flag,
  the cost and the distance of a pair.
\<close>

record Cell =
  cell_found :: bool
  cell_cost :: Cost
  cell_distance :: "32 word"

text \<open>
  Modelled from the spec: the cell written for a best connection (section 4.9): cost and
  distance of a found pair, and the not-found convention otherwise.
\<close>

definition matrix_cell :: "BestCandidate \<Rightarrow> Cell" where
  "matrix_cell b =
     (if found b then \<lparr>cell_found = True, cell_cost = bc_cost b, cell_distance = distance b\<rparr>
      else \<lparr>cell_found = False, cell_cost = \<lparr>cost = 0, secs = 0\<rparr>, cell_distance = 0\<rparr>)"

text \<open>
  Modelled from the spec: the state in which the expansion starts: mode and cost threshold of
  the query, \<open>Initialize\<close>, then the seeds of sources and targets (section 2, data flow).
\<close>

definition prepare ::
  "Env \<Rightarrow> Location list \<Rightarrow> Location list \<Rightarrow> TravelMode \<Rightarrow> real \<Rightarrow> CostMatrix \<Rightarrow> CostMatrix" where
  "prepare G source_location_list target_location_list m max_matrix_distance eng =
     SetTargets G target_location_list
       (SetSources G source_location_list
          (Initialize G source_location_list target_location_list
             (eng\<lparr>mode := m, current_cost_threshold := GetCostThreshold m max_matrix_distance\<rparr>)))"

text \<open>
  Modelled from the spec: \<open>CostMatrix::SourceToTarget\<close> (section 4.1): the driver repeats its
  outer iteration until it is finished, the paths are recosted when time was asked for and is
  not invariant, and the matrix is written. The loop is \<open>while_option\<close>: a query whose
  expansion never finishes has the value \<open>None\<close>.
\<close>

definition SourceToTarget ::
  "Env \<Rightarrow> Location list \<Rightarrow> Location list \<Rightarrow> TravelMode \<Rightarrow> real \<Rightarrow> bool \<Rightarrow> bool \<Rightarrow> CostMatrix
     \<Rightarrow> (Cell list \<times> CostMatrix) option" where
  "SourceToTarget G source_location_list target_location_list m max_matrix_distance
      has_time invariant eng =
     (case while_option (\<lambda>st. \<not> finished (snd st)) (ExpansionRound G)
             (0, prepare G source_location_list target_location_list m max_matrix_distance eng) of
        None \<Rightarrow> None
      | Some st \<Rightarrow>
          (let eng' = (if has_time \<and> \<not> invariant then RecostPaths G (snd st) else snd st)
           in Some (map matrix_cell (best_connection eng'), eng')))"

section \<open>Notions used in the statements and proofs\<close>




text \<open>
  The target map is well formed when every target index it holds is below the number of
  targets.
\<close>

definition tm_wf :: "CostMatrix \<Rightarrow> bool" where
  "tm_wf eng \<longleftrightarrow> (\<forall>e. \<forall>x \<in> set (targets eng e). fst x < target_count eng)"

text \<open>
  The members a connection check leaves alone, those a forward step leaves alone, and those a
  backward step leaves alone.
\<close>

definition search_part ::
  "CostMatrix \<Rightarrow> TravelMode \<times> nat \<times> nat \<times> real \<times> Search list \<times> Search list \<times> (GraphId \<Rightarrow> (nat \<times> nat) list)" where
  "search_part eng =
     (mode eng, source_count eng, target_count eng, current_cost_threshold eng,
      source_search eng, target_search eng, targets eng)"

definition forward_frame ::
  "CostMatrix \<Rightarrow> TravelMode \<times> nat \<times> nat \<times> real \<times> Search list \<times> (GraphId \<Rightarrow> (nat \<times> nat) list)" where
  "forward_frame eng =
     (mode eng, source_count eng, target_count eng, current_cost_threshold eng,
      target_search eng, targets eng)"

definition backward_frame ::
  "CostMatrix \<Rightarrow> TravelMode \<times> nat \<times> nat \<times> real \<times> nat \<times> Search list \<times> LocationStatus list \<times> BestCandidate list" where
  "backward_frame eng =
     (mode eng, source_count eng, target_count eng, current_cost_threshold eng,
      remaining_sources eng, source_search eng, source_status eng, best_connection eng)"


text \<open>
  A step of source \<open>s\<close> leaves the status of every other source and the best connections of
  every other row as they were.
\<close>

definition others_kept :: "nat \<Rightarrow> CostMatrix \<Rightarrow> CostMatrix \<Rightarrow> bool" where
  "others_kept s e' e \<longleftrightarrow>
     target_count e' = target_count e \<and>
     (\<forall>j. j \<noteq> s \<longrightarrow> source_status e' ! j = source_status e ! j) \<and>
     (\<forall>idx. idx div target_count e \<noteq> s \<longrightarrow> best_connection e' ! idx = best_connection e ! idx)"







definition thresholds :: "CostMatrix \<Rightarrow> int list \<times> int list" where
  "thresholds eng = (map threshold (source_status eng), map threshold (target_status eng))"



section \<open>Example inputs\<close>

text \<open>
  A road of three nodes and two segments: edges 1 and 3 lead forward, 2 and 4 are their
  opposing edges. Every edge costs 1, every turn is allowed and free.
\<close>

definition example_env :: Env where
  "example_env =
     \<lparr>outgoing = (\<lambda>e. if e = 1 then [2, 3] else if e = 2 then [1] else if e = 3 then [4]
                      else if e = 4 then [2, 3] else []),
      opposing_edge_id = (\<lambda>e. if e = 1 then 2 else if e = 2 then 1 else if e = 3 then 4
                              else if e = 4 then 3 else 0),
      edge_length = (\<lambda>e. 10),
      partial_length = (\<lambda>dir c. 0),
      disallowed = (\<lambda>dir loc e pred. False),
      edge_cost = (\<lambda>loc e t. \<lparr>cost = 1, secs = 1\<rparr>),
      transition_cost = (\<lambda>loc e pred. \<lparr>cost = 0, secs = 0\<rparr>),
      edge_cost_reverse = (\<lambda>loc e t. \<lparr>cost = 1, secs = 1\<rparr>),
      transition_cost_reverse = (\<lambda>loc e pred. \<lparr>cost = 0, secs = 0\<rparr>),
      recost = (\<lambda>s fwd rev. \<lparr>cost = 0, secs = 0\<rparr>),
      initial_threshold = 5,
      pair_meeting_threshold = 2,
      invalid_edge = 0,
      unreached_cost = \<lparr>cost = 1000000, secs = 1000000\<rparr>,
      unreached_distance = 1000000\<rparr>"

text \<open>An engine before its first query.\<close>

definition fresh_engine :: CostMatrix where
  "fresh_engine =
     \<lparr>mode = Auto, source_count = 0, remaining_sources = 0, target_count = 0,
      remaining_targets = 0, current_cost_threshold = 0, source_status = [], target_status = [],
      source_search = [], target_search = [], best_connection = [], targets = (\<lambda>e. [])\<rparr>"

text \<open>One source at the start of edge 1, one target at the end of edge 3.\<close>

definition example_sources :: "Location list" where
  "example_sources = [[\<lparr>graph_id = 1, percent_along = 0\<rparr>]]"

definition example_targets :: "Location list" where
  "example_targets = [[\<lparr>graph_id = 3, percent_along = 1\<rparr>]]"

text \<open>The same query with a maximum distance of 0, so that every seed is above the cost threshold.\<close>

definition pruned_engine :: CostMatrix where
  "pruned_engine =
     prepare example_env example_sources example_targets Auto 0 (clear fresh_engine)"





section \<open>Properties of the header's code\<close>

lemma SetOriginTimes_loop_infos:
  "fst (SetOriginTimes_loop mk origins infos st) =
     infos @ map (\<lambda>i. fst (mk (origins ! i) (state_after mk (take i origins) st)))
               [0..<length origins]"
proof (induction origins arbitrary: infos st)
  case Nil
  then show ?case by simp
next
  case (Cons origin rest)
  have shift: "[0..<length (origin # rest)] = 0 # map Suc [0..<length rest]"
    by (simp add: upt_conv_Cons map_Suc_upt del: upt_Suc)
  show ?case
    unfolding shift
    using Cons.IH [of "infos @ [fst (mk origin st)]" "snd (snd (mk origin st))"]
    by (simp add: split_beta comp_def)
qed

text \<open>
  C10. \<open>SetOriginTimes\<close> returns one time info per origin, in the order of the origins: the
  vector is as long as the list of origins, and its \<open>i\<close>-th element is what \<open>TimeInfo::make\<close>
  returns for the \<open>i\<close>-th origin (called in the reader and cache state left by the calls for
  the origins before it).
\<close>

theorem SetOriginTimes_one_per_origin:
  "length (fst (SetOriginTimes mk origins st)) = length origins \<and>
   fst (SetOriginTimes mk origins st) =
     map (\<lambda>i. fst (mk (origins ! i) (state_after mk (take i origins) st))) [0..<length origins]"
  by (simp add: SetOriginTimes_def SetOriginTimes_loop_infos)

text \<open>
  C9. \<open>Update\<close> assigns \<open>edgeid\<close>, \<open>opp_edgeid\<close>, \<open>cost\<close> and \<open>distance\<close> and leaves \<open>found\<close>
  and \<open>threshold\<close> as they were, so \<open>Update\<close> alone never turns \<open>found\<close> to true; a freshly
  constructed candidate has \<open>found = false\<close> and \<open>threshold = 0\<close> whatever cost and distance
  the constructor is given.
\<close>

theorem Update_frame:
  "found (Update b e1 e2 c d) = found b \<and>
   bc_threshold (Update b e1 e2 c d) = bc_threshold b \<and>
   edgeid (Update b e1 e2 c d) = e1 \<and>
   opp_edgeid (Update b e1 e2 c d) = e2 \<and>
   bc_cost (Update b e1 e2 c d) = c \<and>
   distance (Update b e1 e2 c d) = d \<and>
   found (BestCandidate_ctor e1 e2 c d) = False \<and>
   bc_threshold (BestCandidate_ctor e1 e2 c d) = 0 \<and>
   found (Update (BestCandidate_ctor e1' e2' c' d') e1 e2 c d) = False"
  by (simp add: Update_def BestCandidate_ctor_def)

section \<open>Properties of the expansion engine\<close>

subsection \<open>The invariant of a search\<close>



lemma cheapest_mem: "cheapest ls m is \<in> insert m (set is)"
  by (induction "is" arbitrary: m) (auto split: if_splits)

lemma pop_Some:
  assumes "pop S = Some (i, S1)"
  shows "i \<in> set (adjacency S) \<and> S1 = S\<lparr>adjacency := remove1 i (adjacency S)\<rparr>"
proof (cases "adjacency S")
  case Nil
  with assms show ?thesis by (simp add: pop_def)
next
  case (Cons j js)
  with assms have "i = cheapest (edgelabel S) j js"
    and "S1 = S\<lparr>adjacency := remove1 i (adjacency S)\<rparr>"
    by (auto simp: pop_def Let_def)
  with cheapest_mem [of "edgelabel S" j js] Cons show ?thesis by auto
qed










subsection \<open>What each operation leaves alone\<close>

lemma foldl_invariant:
  assumes "P a" and "\<And>b x. P b \<Longrightarrow> x \<in> set xs \<Longrightarrow> P (f b x)"
  shows "P (foldl f a xs)"
  using assms by (induction xs arbitrary: a) simp_all

lemma search_part_UpdateStatus: "search_part (UpdateStatus G s t eng) = search_part eng"
  by (simp add: search_part_def UpdateStatus_def)

lemma search_part_connect: "search_part (connect G s pred eng entry) = search_part eng"
  by (simp add: connect_def Let_def search_part_UpdateStatus) (simp add: search_part_def)

lemma search_part_CheckForwardConnections:
  "search_part (CheckForwardConnections G s pred n eng) = search_part eng"
  unfolding CheckForwardConnections_def
  by (rule foldl_invariant [where P = "\<lambda>e. search_part e = search_part eng"])
     (simp_all add: search_part_connect)

lemma search_part_tick_pairs: "search_part (tick_pairs s eng) = search_part eng"
  by (simp add: search_part_def tick_pairs_def)

lemma search_part_finalize_source: "search_part (finalize_source s eng) = search_part eng"
  by (simp add: search_part_def finalize_source_def)

lemma search_part_terminate_source: "search_part (terminate_source s eng) = search_part eng"
  by (simp add: terminate_source_def search_part_finalize_source) (simp add: search_part_def)

lemma search_part_decay_source: "search_part (decay_source s u eng) = search_part eng"
  by (simp add: decay_source_def Let_def search_part_finalize_source) (simp add: search_part_def)

lemma search_part_fields:
  assumes "search_part e' = search_part e"
  shows "mode e' = mode e" "source_count e' = source_count e" "target_count e' = target_count e"
    "current_cost_threshold e' = current_cost_threshold e"
    "source_search e' = source_search e" "target_search e' = target_search e"
    "targets e' = targets e"
  using assms by (simp_all add: search_part_def)


lemma forward_frame_search_part:
  "search_part e' = search_part e \<Longrightarrow> forward_frame e' = forward_frame e"
  by (simp add: search_part_def forward_frame_def)

lemma forward_frame_ForwardSearch: "forward_frame (ForwardSearch G s n eng) = forward_frame eng"
proof -
  note fr = forward_frame_search_part
  have tp: "forward_frame (tick_pairs s eng) = forward_frame eng"
    by (rule fr [OF search_part_tick_pairs])
  have upd: "forward_frame (e\<lparr>source_search := x\<rparr>) = forward_frame e" for e x
    by (simp add: forward_frame_def)
  show ?thesis
    by (simp add: ForwardSearch_def Let_def tp upd
        fr [OF search_part_terminate_source] fr [OF search_part_decay_source]
        fr [OF search_part_CheckForwardConnections]
        split: option.split prod.split)
qed

lemma backward_frame_BackwardSearch: "backward_frame (BackwardSearch G t eng) = backward_frame eng"
  by (simp add: BackwardSearch_def Let_def backward_frame_def terminate_target_def
      decay_target_def split: option.split prod.split)

lemma forward_frame_fields:
  assumes "forward_frame e' = forward_frame e"
  shows "mode e' = mode e" "source_count e' = source_count e" "target_count e' = target_count e"
    "current_cost_threshold e' = current_cost_threshold e"
    "target_search e' = target_search e" "targets e' = targets e"
  using assms by (simp_all add: forward_frame_def)

lemma backward_frame_fields:
  assumes "backward_frame e' = backward_frame e"
  shows "mode e' = mode e" "source_count e' = source_count e" "target_count e' = target_count e"
    "current_cost_threshold e' = current_cost_threshold e"
    "remaining_sources e' = remaining_sources e"
    "source_search e' = source_search e" "source_status e' = source_status e"
    "best_connection e' = best_connection e"
  using assms by (simp_all add: backward_frame_def)

lemma forward_frame_forward_round: "forward_frame (forward_round G n eng) = forward_frame eng"
  unfolding forward_round_def
  by (rule foldl_invariant [where P = "\<lambda>e. forward_frame e = forward_frame eng"])
     (simp_all add: forward_frame_ForwardSearch)

lemma backward_frame_backward_round: "backward_frame (backward_round G eng) = backward_frame eng"
  unfolding backward_round_def
  by (rule foldl_invariant [where P = "\<lambda>e. backward_frame e = backward_frame eng"])
     (simp_all add: backward_frame_BackwardSearch)







subsection \<open>Every search keeps its invariant\<close>






subsection \<open>The costs of the best connections\<close>


















subsection \<open>A forward step touches one source only\<close>










lemma others_kept_source_search [simp]:
  "others_kept s (e'\<lparr>source_search := x\<rparr>) e = others_kept s e' e"
  "others_kept s e' (e\<lparr>source_search := x\<rparr>) = others_kept s e' e"
  by (simp_all add: others_kept_def)

lemma tm_wf_source_search [simp]: "tm_wf (e\<lparr>source_search := x\<rparr>) = tm_wf e"
  by (simp add: tm_wf_def)

lemma tm_wf_tick_pairs [simp]: "tm_wf (tick_pairs s e) = tm_wf e"
  by (simp add: tm_wf_def tick_pairs_def)








subsection \<open>The state in which the expansion starts\<close>

lemma seeded_step:
  fixes g :: "nat \<Rightarrow> Search \<Rightarrow> Search"
  shows "(map (\<lambda>i. if i < j then g i (xs ! i) else xs ! i) [0..<length xs])
           [j := g j (map (\<lambda>i. if i < j then g i (xs ! i) else xs ! i) [0..<length xs] ! j)] =
         map (\<lambda>i. if i < Suc j then g i (xs ! i) else xs ! i) [0..<length xs]"
  by (rule nth_equalityI) (auto simp: nth_list_update less_Suc_eq)

lemma SetSources_prefix:
  "foldl (\<lambda>e i. e\<lparr>source_search :=
                   (source_search e)[i := seed G Forward i (sources ! i) (source_search e ! i)]\<rparr>)
     eng [0..<j] =
   eng\<lparr>source_search :=
         map (\<lambda>i. if i < j then seed G Forward i (sources ! i) (source_search eng ! i)
                   else source_search eng ! i) [0..<length (source_search eng)]\<rparr>"
proof (induction j)
  case 0
  then show ?case by (simp add: map_nth)
next
  case (Suc j)
  show ?case
    using seeded_step [of j "\<lambda>i. seed G Forward i (sources ! i)" "source_search eng"]
    by (simp only: upt_Suc_append [OF le0] foldl_append foldl.simps Suc) simp
qed

lemma SetTargets_prefix:
  "foldl (\<lambda>e i. e\<lparr>target_search :=
                   (target_search e)[i := seed G Reverse i (tgts ! i) (target_search e ! i)]\<rparr>)
     eng [0..<j] =
   eng\<lparr>target_search :=
         map (\<lambda>i. if i < j then seed G Reverse i (tgts ! i) (target_search eng ! i)
                   else target_search eng ! i) [0..<length (target_search eng)]\<rparr>"
proof (induction j)
  case 0
  then show ?case by (simp add: map_nth)
next
  case (Suc j)
  show ?case
    using seeded_step [of j "\<lambda>i. seed G Reverse i (tgts ! i)" "target_search eng"]
    by (simp only: upt_Suc_append [OF le0] foldl_append foldl.simps Suc) simp
qed

lemma prepare_clear:
  "prepare G srcs tgts m d (clear eng) =
     \<lparr>mode = m,
      source_count = length srcs,
      remaining_sources = length srcs,
      target_count = length tgts,
      remaining_targets = length tgts,
      current_cost_threshold = GetCostThreshold m d,
      source_status =
        replicate (length srcs)
          \<lparr>threshold = initial_threshold G, remaining_locations = {0..<length tgts}\<rparr>,
      target_status =
        replicate (length tgts)
          \<lparr>threshold = initial_threshold G, remaining_locations = {0..<length srcs}\<rparr>,
      source_search = map (\<lambda>i. seed G Forward i (srcs ! i) empty_search) [0..<length srcs],
      target_search = map (\<lambda>i. seed G Reverse i (tgts ! i) empty_search) [0..<length tgts],
      best_connection =
        replicate (length srcs * length tgts)
          (BestCandidate_ctor (invalid_edge G) (invalid_edge G) (unreached_cost G)
             (unreached_distance G)),
      targets = (\<lambda>e. [])\<rparr>"
  by (rule CostMatrix.equality)
     (simp_all add: prepare_def SetSources_def SetTargets_def SetSources_prefix SetTargets_prefix
        Initialize_def clear_def LocationStatus_ctor_def)



lemma threshold_rounds:
  "current_cost_threshold (snd ((ExpansionRound G ^^ k) st)) = current_cost_threshold (snd st)"
proof (induction k)
  case 0
  then show ?case by simp
next
  case (Suc k)
  have "current_cost_threshold (snd (ExpansionRound G st')) = current_cost_threshold (snd st')"
    for st'
    by (simp add: ExpansionRound_def
        backward_frame_fields(4) [OF backward_frame_backward_round]
        forward_frame_fields(4) [OF forward_frame_forward_round])
  with Suc show ?case by simp
qed

lemma threshold_prepare:
  "current_cost_threshold (prepare G srcs tgts m d eng) = GetCostThreshold m d"
  by (simp add: prepare_def SetSources_def SetTargets_def SetSources_prefix SetTargets_prefix
      Initialize_def)


text \<open>
  The example query returns: the driver finishes, and the only cell holds the meeting of the
  forward label of edge 3 (cost 2) with the seed of the target on the opposing edge (cost 1).
\<close>

lemma example_query:
  "map_option fst
     (SourceToTarget example_env example_sources example_targets Auto 5600 False False
        (clear fresh_engine)) =
   Some [\<lparr>cell_found = True, cell_cost = \<lparr>cost = 3, secs = 3\<rparr>, cell_distance = 10\<rparr>]"
  by code_simp

lemma pruned_engine_source:
  "source_search pruned_engine ! 0 =
     \<lparr>adjacency = [0],
      edgelabel = [\<lparr>predecessor = None, el_edgeid = 1, el_opp_edgeid = 2,
                    el_cost = \<lparr>cost = 1, secs = 1\<rparr>, path_distance = 0\<rparr>],
      edgestatus = (\<lambda>e. (Unreached, 0))(1 := (Temporary, 0)),
      settled = []\<rparr>"
  by (simp add: pruned_engine_def prepare_clear example_sources_def seed_def push_label_def
      seed_label_def empty_search_def example_env_def cost_scale_def)

lemma pruned_engine_target:
  "target_search pruned_engine ! 0 =
     \<lparr>adjacency = [0],
      edgelabel = [\<lparr>predecessor = None, el_edgeid = 4, el_opp_edgeid = 3,
                    el_cost = \<lparr>cost = 1, secs = 1\<rparr>, path_distance = 0\<rparr>],
      edgestatus = (\<lambda>e. (Unreached, 0))(4 := (Temporary, 0)),
      settled = []\<rparr>"
  by (simp add: pruned_engine_def prepare_clear example_targets_def seed_def push_label_def
      seed_label_def empty_search_def example_env_def cost_scale_def)

lemma pruned_engine_threshold: "current_cost_threshold pruned_engine = 0"
  by (simp add: pruned_engine_def prepare_clear GetCostThreshold_def)



subsection \<open>The driver returns\<close>





















lemma thresholds_source_search [simp]: "thresholds (e\<lparr>source_search := x\<rparr>) = thresholds e"
  by (simp add: thresholds_def)
















subsection \<open>The properties the specification states\<close>

text \<open>
  C2. The cost ceiling is the maximum matrix distance divided by the divisor of the mode: 56
  for auto, 56 for bicycle, 28 for pedestrian; it is the threshold of the query from the start
  of the expansion through all its iterations. A label popped from the queue of a source or a
  target whose cost exceeds the threshold is discarded rather than expanded: the step removes
  it from the queue and leaves the labels, the edge status and the settled edges of the search
  as they were, and the search is terminated.
\<close>

theorem cost_threshold_prunes:
  "GetCostThreshold Auto d = d / 56 \<and>
   GetCostThreshold Bicycle d = d / 56 \<and>
   GetCostThreshold Pedestrian d = d / 28 \<and>
   current_cost_threshold (snd ((ExpansionRound G ^^ k) (0, prepare G srcs tgts m d prev))) =
     GetCostThreshold m d \<and>
   (pop (source_search eng ! s) = Some (i, Sf) \<and>
    current_cost_threshold eng < cost (el_cost (edgelabel Sf ! i)) \<longrightarrow>
      Sf = (source_search eng ! s)\<lparr>adjacency := remove1 i (adjacency (source_search eng ! s))\<rparr> \<and>
      source_search (ForwardSearch G s n eng) = (source_search eng)[s := Sf] \<and>
      ForwardSearch G s n eng =
        terminate_source s ((tick_pairs s eng)\<lparr>source_search := (source_search eng)[s := Sf]\<rparr>)) \<and>
   (pop (target_search eng ! t) = Some (j, Sb) \<and>
    current_cost_threshold eng < cost (el_cost (edgelabel Sb ! j)) \<longrightarrow>
      Sb = (target_search eng ! t)\<lparr>adjacency := remove1 j (adjacency (target_search eng ! t))\<rparr> \<and>
      target_search (BackwardSearch G t eng) = (target_search eng)[t := Sb] \<and>
      BackwardSearch G t eng =
        terminate_target t (eng\<lparr>target_search := (target_search eng)[t := Sb]\<rparr>))"
proof (intro conjI impI)
  show "GetCostThreshold Auto d = d / 56"
    by (simp add: GetCostThreshold_def kCostThresholdAutoDivisor_def)
  show "GetCostThreshold Bicycle d = d / 56"
    by (simp add: GetCostThreshold_def kCostThresholdBicycleDivisor_def)
  show "GetCostThreshold Pedestrian d = d / 28"
    by (simp add: GetCostThreshold_def kCostThresholdPedestrianDivisor_def)
  show "current_cost_threshold (snd ((ExpansionRound G ^^ k) (0, prepare G srcs tgts m d prev))) =
      GetCostThreshold m d"
    by (simp add: threshold_rounds threshold_prepare)
next
  assume a: "pop (source_search eng ! s) = Some (i, Sf) \<and>
    current_cost_threshold eng < cost (el_cost (edgelabel Sf ! i))"
  then show "Sf = (source_search eng ! s)\<lparr>adjacency := remove1 i (adjacency (source_search eng ! s))\<rparr>"
    using pop_Some by blast
  from a show fs: "ForwardSearch G s n eng =
      terminate_source s ((tick_pairs s eng)\<lparr>source_search := (source_search eng)[s := Sf]\<rparr>)"
    using search_part_fields(4,5) [OF search_part_tick_pairs, of s eng]
    by (simp add: ForwardSearch_def Let_def)
  show "source_search (ForwardSearch G s n eng) = (source_search eng)[s := Sf]"
    unfolding fs by (simp add: search_part_fields(5) [OF search_part_terminate_source])
next
  assume a: "pop (target_search eng ! t) = Some (j, Sb) \<and>
    current_cost_threshold eng < cost (el_cost (edgelabel Sb ! j))"
  then show "Sb = (target_search eng ! t)\<lparr>adjacency := remove1 j (adjacency (target_search eng ! t))\<rparr>"
    using pop_Some by blast
  from a show bs: "BackwardSearch G t eng =
      terminate_target t (eng\<lparr>target_search := (target_search eng)[t := Sb]\<rparr>)"
    by (simp add: BackwardSearch_def Let_def)
  show "target_search (BackwardSearch G t eng) = (target_search eng)[t := Sb]"
    unfolding bs by (simp add: terminate_target_def)
qed

theorem cost_threshold_prunes_witness:
  "pop (source_search pruned_engine ! 0) =
     Some (0, (source_search pruned_engine ! 0)\<lparr>adjacency := []\<rparr>) \<and>
   current_cost_threshold pruned_engine
     < cost (el_cost (edgelabel ((source_search pruned_engine ! 0)\<lparr>adjacency := []\<rparr>) ! 0)) \<and>
   source_search (ForwardSearch example_env 0 0 pruned_engine) =
     (source_search pruned_engine)[0 := (source_search pruned_engine ! 0)\<lparr>adjacency := []\<rparr>] \<and>
   pop (target_search pruned_engine ! 0) =
     Some (0, (target_search pruned_engine ! 0)\<lparr>adjacency := []\<rparr>) \<and>
   current_cost_threshold pruned_engine
     < cost (el_cost (edgelabel ((target_search pruned_engine ! 0)\<lparr>adjacency := []\<rparr>) ! 0)) \<and>
   target_search (BackwardSearch example_env 0 pruned_engine) =
     (target_search pruned_engine)[0 := (target_search pruned_engine ! 0)\<lparr>adjacency := []\<rparr>]"
proof -
  have ps: "pop (source_search pruned_engine ! 0) =
      Some (0, (source_search pruned_engine ! 0)\<lparr>adjacency := []\<rparr>)"
    by (simp add: pruned_engine_source pop_def)
  have cs: "current_cost_threshold pruned_engine
      < cost (el_cost (edgelabel ((source_search pruned_engine ! 0)\<lparr>adjacency := []\<rparr>) ! 0))"
    by (simp add: pruned_engine_source pruned_engine_threshold)
  have pt: "pop (target_search pruned_engine ! 0) =
      Some (0, (target_search pruned_engine ! 0)\<lparr>adjacency := []\<rparr>)"
    by (simp add: pruned_engine_target pop_def)
  have ct: "current_cost_threshold pruned_engine
      < cost (el_cost (edgelabel ((target_search pruned_engine ! 0)\<lparr>adjacency := []\<rparr>) ! 0))"
    by (simp add: pruned_engine_target pruned_engine_threshold)
  show ?thesis
    using ps cs pt ct
      cost_threshold_prunes [where G = example_env and eng = pruned_engine and n = 0
        and s = 0 and i = 0 and Sf = "(source_search pruned_engine ! 0)\<lparr>adjacency := []\<rparr>"
        and t = 0 and j = 0 and Sb = "(target_search pruned_engine ! 0)\<lparr>adjacency := []\<rparr>"]
    by blast
qed









end
